theory Spec2Isabelle
  imports Complex_Main
begin

section \<open>Numbers\<close>

text \<open>
  The engine computes on JavaScript numbers. The values that enter it (prices, highs,
  lows, volumes, the fields of a signal) are taken as finite and are modelled by
  \<^typ>\<open>real\<close>, with exact arithmetic: rounding, overflow and the sign of zero are not
  modelled. A computed value that need not be finite (a quotient whose divisor can be
  zero, \<open>Math.max()\<close> of no argument, a read past the end of an array that is then used in
  arithmetic) is a \<open>number\<close>, which adds the two infinities and NaN.
\<close>

datatype number = Num real | PosInfinity | NegInfinity | NaN

fun js_neg :: "number \<Rightarrow> number" where
  "js_neg (Num a) = Num (- a)"
| "js_neg PosInfinity = NegInfinity"
| "js_neg NegInfinity = PosInfinity"
| "js_neg NaN = NaN"

fun js_abs :: "number \<Rightarrow> number" where
  "js_abs (Num a) = Num \<bar>a\<bar>"
| "js_abs PosInfinity = PosInfinity"
| "js_abs NegInfinity = PosInfinity"
| "js_abs NaN = NaN"

fun js_add :: "number \<Rightarrow> number \<Rightarrow> number" where
  "js_add (Num a) (Num b) = Num (a + b)"
| "js_add NaN _ = NaN"
| "js_add _ NaN = NaN"
| "js_add PosInfinity NegInfinity = NaN"
| "js_add NegInfinity PosInfinity = NaN"
| "js_add PosInfinity _ = PosInfinity"
| "js_add _ PosInfinity = PosInfinity"
| "js_add NegInfinity _ = NegInfinity"
| "js_add _ NegInfinity = NegInfinity"

definition js_sub :: "number \<Rightarrow> number \<Rightarrow> number" where
  "js_sub a b = js_add a (js_neg b)"

fun js_mul :: "number \<Rightarrow> number \<Rightarrow> number" where
  "js_mul (Num a) (Num b) = Num (a * b)"
| "js_mul NaN _ = NaN"
| "js_mul _ NaN = NaN"
| "js_mul (Num a) PosInfinity = (if a = 0 then NaN else if 0 < a then PosInfinity else NegInfinity)"
| "js_mul (Num a) NegInfinity = (if a = 0 then NaN else if 0 < a then NegInfinity else PosInfinity)"
| "js_mul PosInfinity (Num b) = (if b = 0 then NaN else if 0 < b then PosInfinity else NegInfinity)"
| "js_mul NegInfinity (Num b) = (if b = 0 then NaN else if 0 < b then NegInfinity else PosInfinity)"
| "js_mul PosInfinity PosInfinity = PosInfinity"
| "js_mul PosInfinity NegInfinity = NegInfinity"
| "js_mul NegInfinity PosInfinity = NegInfinity"
| "js_mul NegInfinity NegInfinity = PosInfinity"

text \<open>
  Division: a finite value divided by zero is an infinity with the sign of the dividend,
  and \<open>0 / 0\<close> is NaN (the zero divisor is taken as \<open>+0\<close>).
\<close>

fun js_div :: "number \<Rightarrow> number \<Rightarrow> number" where
  "js_div (Num a) (Num b) =
     (if b \<noteq> 0 then Num (a / b)
      else if 0 < a then PosInfinity else if a < 0 then NegInfinity else NaN)"
| "js_div NaN _ = NaN"
| "js_div _ NaN = NaN"
| "js_div (Num a) PosInfinity = Num 0"
| "js_div (Num a) NegInfinity = Num 0"
| "js_div PosInfinity (Num b) = (if 0 \<le> b then PosInfinity else NegInfinity)"
| "js_div NegInfinity (Num b) = (if 0 \<le> b then NegInfinity else PosInfinity)"
| "js_div PosInfinity PosInfinity = NaN"
| "js_div PosInfinity NegInfinity = NaN"
| "js_div NegInfinity PosInfinity = NaN"
| "js_div NegInfinity NegInfinity = NaN"

text \<open>Comparisons: every comparison with NaN is false.\<close>

fun js_lt :: "number \<Rightarrow> number \<Rightarrow> bool" where
  "js_lt (Num a) (Num b) = (a < b)"
| "js_lt NaN _ = False"
| "js_lt _ NaN = False"
| "js_lt NegInfinity NegInfinity = False"
| "js_lt NegInfinity _ = True"
| "js_lt PosInfinity _ = False"
| "js_lt (Num a) PosInfinity = True"
| "js_lt (Num a) NegInfinity = False"

definition js_gt :: "number \<Rightarrow> number \<Rightarrow> bool" where
  "js_gt a b = js_lt b a"

fun js_le :: "number \<Rightarrow> number \<Rightarrow> bool" where
  "js_le (Num a) (Num b) = (a \<le> b)"
| "js_le NaN _ = False"
| "js_le _ NaN = False"
| "js_le NegInfinity _ = True"
| "js_le _ PosInfinity = True"
| "js_le PosInfinity _ = False"
| "js_le (Num a) NegInfinity = False"

definition js_ge :: "number \<Rightarrow> number \<Rightarrow> bool" where
  "js_ge a b = js_le b a"

text \<open>Strict equality \<open>===\<close> on numbers: NaN equals nothing.\<close>

definition js_eq :: "number \<Rightarrow> number \<Rightarrow> bool" where
  "js_eq a b = (a \<noteq> NaN \<and> a = b)"

section \<open>Arrays\<close>

text \<open>
  \<open>xs[i]\<close> used as a number: \<open>undefined\<close> past the end, which arithmetic and
  comparisons turn into NaN.
\<close>

definition js_nth :: "real list \<Rightarrow> nat \<Rightarrow> number" where
  "js_nth xs i = (if i < length xs then Num (xs ! i) else NaN)"

text \<open>
  \<open>xs.slice(-n)\<close> for an integer \<open>n \<ge> 0\<close>: the last \<open>n\<close> elements, all of them when
  the array is shorter; \<open>slice(-0)\<close> is \<open>slice(0)\<close>, again the whole array.
\<close>

definition slice_last :: "nat \<Rightarrow> 'a list \<Rightarrow> 'a list" where
  "slice_last n xs = (if n = 0 then xs else drop (length xs - n) xs)"

text \<open>\<open>xs.slice(-a, -b)\<close> for positive \<open>a\<close> and \<open>b\<close>.\<close>

definition slice_between :: "nat \<Rightarrow> nat \<Rightarrow> 'a list \<Rightarrow> 'a list" where
  "slice_between a b xs =
     (let start = length xs - a; stop = length xs - b
      in take (stop - start) (drop start xs))"

text \<open>\<open>Math.max(...xs)\<close> and \<open>Math.min(...xs)\<close>; with no argument they are the infinities.\<close>

fun Math_max :: "real list \<Rightarrow> number" where
  "Math_max [] = NegInfinity"
| "Math_max (x # xs) = Num (foldl max x xs)"

fun Math_min :: "real list \<Rightarrow> number" where
  "Math_min [] = PosInfinity"
| "Math_min (x # xs) = Num (foldl min x xs)"


text \<open>\<open>xs.reduce((a, b) => a + b, 0)\<close>.\<close>

definition reduce_sum :: "real list \<Rightarrow> real" where
  "reduce_sum xs = foldl (\<lambda>a b. a + b) 0 xs"

section \<open>Indicator helpers\<close>

text \<open>
  The source of this section and of the next three is the module \<open>xaiLogic\<close>. A
  \<open>period\<close> is a natural number (the engine passes 20, 50 and 14).
\<close>

definition calculateSMA :: "real list \<Rightarrow> nat \<Rightarrow> number" where
  "calculateSMA data period =
     (if length data < period
      then (case data of [] \<Rightarrow> Num 0 | _ \<Rightarrow> Num (data ! (length data - 1)))
      else let slice = slice_last period data
           in js_div (Num (foldl (\<lambda>sum val. sum + val) 0 slice)) (Num (real period)))"

definition calculateEMA :: "real list \<Rightarrow> nat \<Rightarrow> real" where
  "calculateEMA data period =
     (case data of
        [] \<Rightarrow> 0
      | d0 # rest \<Rightarrow>
          let k = 2 / (real period + 1)
          in foldl (\<lambda>ema d. d * k + ema * (1 - k)) d0 rest)"

text \<open>
  The loop of \<open>calculateRSI\<close> over \<open>i = data.length - period, ..., data.length - 1\<close>,
  carrying \<open>(gains, losses)\<close>. It runs only when \<open>period + 1 \<le> data.length\<close>, so every
  index it reads is in range.
\<close>

definition rsi_step :: "real list \<Rightarrow> real \<times> real \<Rightarrow> nat \<Rightarrow> real \<times> real" where
  "rsi_step data gl i =
     (let diff = data ! i - data ! (i - 1)
      in if diff > 0 then (fst gl + diff, snd gl) else (fst gl, snd gl - diff))"

definition rsi_sums :: "real list \<Rightarrow> nat \<Rightarrow> real \<times> real" where
  "rsi_sums data period =
     foldl (rsi_step data) (0, 0) [length data - period ..< length data]"

definition rsi_avgGain :: "real list \<Rightarrow> nat \<Rightarrow> number" where
  "rsi_avgGain data period = js_div (Num (fst (rsi_sums data period))) (Num (real period))"

definition rsi_avgLoss :: "real list \<Rightarrow> nat \<Rightarrow> number" where
  "rsi_avgLoss data period = js_div (Num (snd (rsi_sums data period))) (Num (real period))"

definition calculateRSI :: "real list \<Rightarrow> nat \<Rightarrow> number" where
  "calculateRSI data period =
     (if length data < period + 1 then Num 50
      else let avgGain = rsi_avgGain data period;
               avgLoss = rsi_avgLoss data period
           in if js_eq avgLoss (Num 0) then Num 100
              else let rs = js_div avgGain avgLoss
                   in js_sub (Num 100) (js_div (Num 100) (js_add (Num 1) rs)))"

section \<open>Pattern detectors\<close>

datatype bias = BULLISH | BEARISH

definition detectFairValueGap :: "real list \<Rightarrow> real list \<Rightarrow> bool" where
  "detectFairValueGap highs lows =
     (if length highs < 3 \<or> length lows < 3 then False
      else let i = length highs - 3;
               prevHigh = js_nth highs i;
               nextLow = js_nth lows (i + 2)
           in js_gt (js_div (js_abs (js_sub nextLow prevHigh)) prevHigh) (Num 0.005))"

definition detectOrderBlock :: "real list \<Rightarrow> bias option" where
  "detectOrderBlock prices =
     (if length prices < 5 then None
      else let lastFive = slice_last 5 prices;
               avg = reduce_sum lastFive / 5;
               recent = prices ! (length prices - 1)
           in if recent > avg * 1.01 then Some BULLISH
              else if recent < avg * 0.99 then Some BEARISH
              else None)"

definition detectVolumeSurge :: "real list \<Rightarrow> bool" where
  "detectVolumeSurge volumes =
     (if length volumes < 10 then False
      else let avgVol = reduce_sum (slice_last 10 volumes) / 10;
               latest = volumes ! (length volumes - 1)
           in latest > avgVol * 1.5)"

definition detectLiquiditySweep :: "real list \<Rightarrow> real list \<Rightarrow> real \<Rightarrow> bias option" where
  "detectLiquiditySweep highs lows current =
     (if length highs < 5 \<or> length lows < 5 then None
      else let recentHigh = Math_max (slice_between 6 1 highs);
               recentLow = Math_min (slice_between 6 1 lows)
           in if js_gt (Num current) recentHigh \<and> current < highs ! (length highs - 2)
              then Some BEARISH
              else if js_lt (Num current) recentLow \<and> current > lows ! (length lows - 2)
              then Some BULLISH
              else None)"

definition detectMitigationBlock :: "real list \<Rightarrow> bias option" where
  "detectMitigationBlock prices =
     (if length prices < 6 then None
      else let last = Num (prices ! (length prices - 1));
               prevLow = Math_min (slice_between 6 2 prices);
               prevHigh = Math_max (slice_between 6 2 prices)
           in if js_gt last (js_mul prevLow (Num 1.02)) \<and> js_lt last prevHigh
              then Some BULLISH
              else if js_lt last (js_mul prevHigh (Num 0.98)) \<and> js_gt last prevLow
              then Some BEARISH
              else None)"

definition detectBreakerBlock :: "real list \<Rightarrow> bias option" where
  "detectBreakerBlock prices =
     (if length prices < 10 then None
      else let prev5 = slice_between 10 5 prices;
               last5 = slice_last 5 prices;
               prevHigh = Math_max prev5;
               prevLow = Math_min prev5;
               currHigh = Math_max last5;
               currLow = Math_min last5
           in if js_gt currHigh prevHigh \<and> js_gt currLow prevLow then Some BULLISH
              else if js_lt currLow prevLow \<and> js_lt currHigh prevHigh then Some BEARISH
              else None)"

definition detectBOS :: "real list \<Rightarrow> real list \<Rightarrow> bias option" where
  "detectBOS highs lows =
     (if length highs < 6 \<or> length lows < 6 then None
      else let prevHigh = highs ! (length highs - 3);
               currHigh = highs ! (length highs - 1);
               prevLow = lows ! (length lows - 3);
               currLow = lows ! (length lows - 1)
           in if currHigh > prevHigh * 1.002 then Some BULLISH
              else if currLow < prevLow * 0.998 then Some BEARISH
              else None)"

definition detectCHoCH :: "real list \<Rightarrow> real list \<Rightarrow> bias option" where
  "detectCHoCH highs lows =
     (if length highs < 8 \<or> length lows < 8 then None
      else let lastHigh = highs ! (length highs - 1);
               secondLastHigh = highs ! (length highs - 3);
               lastLow = lows ! (length lows - 1);
               secondLastLow = lows ! (length lows - 3);
               brokeHigh = (lastHigh > secondLastHigh * 1.001);
               brokeLow = (lastLow < secondLastLow * 0.999)
           in if brokeHigh \<and> \<not> brokeLow then Some BULLISH
              else if brokeLow \<and> \<not> brokeHigh then Some BEARISH
              else None)"

section \<open>Signals\<close>

datatype direction = BUY | SELL | HOLD

text \<open>The three values of \<open>hitStatus\<close>: \<open>"ACTIVE"\<close>, the target mark and the stop mark.\<close>

datatype hit_status = ACTIVE | TARGET | STOP

record StockData =
  symbol :: string
  current :: real
  high :: real
  low :: real
  open' :: real
  previousClose :: real
  prices :: "real list"
  highs :: "real list"
  lows :: "real list"
  volumes :: "real list"

text \<open>An optional field is an \<open>option\<close>: \<open>None\<close> is the absent field.\<close>

record SignalResult =
  signal :: direction
  stoploss :: real
  targets :: "real list"
  confidence :: real
  explanation :: string
  hitStatus :: hit_status
  entryPrice :: "real option"
  finalPrice :: "real option"
  resolved :: "bool option"
  resolvedAt :: "string option"

text \<open>The truth value of an optional boolean in a condition: absent is false.\<close>

definition truthy :: "bool option \<Rightarrow> bool" where
  "truthy b = (b = Some True)"

section \<open>Signal generation\<close>

text \<open>
  \<open>((current - prevClose) / prevClose) * 100\<close>; a previous close of zero gives an
  infinity or NaN.
\<close>

definition percent_change :: "real \<Rightarrow> real \<Rightarrow> number" where
  "percent_change cur prevClose =
     js_mul (js_div (Num (cur - prevClose)) (Num prevClose)) (Num 100)"

text \<open>
  One line \<open>if (c) { confidence += w; explanation += txt; }\<close>, on the pair
  \<open>(confidence, explanation)\<close>.
\<close>

definition bonus :: "bool \<Rightarrow> real \<Rightarrow> string \<Rightarrow> real \<times> string \<Rightarrow> real \<times> string" where
  "bonus c w txt ce = (if c then (fst ce + w, snd ce @ txt) else ce)"

text \<open>
  The four arrays of a \<open>StockData\<close> are always present, so \<open>stock.prices || []\<close> is
  \<open>stock.prices\<close>. The two \<open>if\<close> blocks of the source run one after the other, each
  overwriting direction, confidence and explanation: \<open>s1\<close> is the state after the first
  and \<open>s2\<close> the state after the second.
\<close>

definition generateSMCSignal :: "StockData \<Rightarrow> SignalResult" where
  "generateSMCSignal stock =
     (let prices = prices stock;
          highs = highs stock;
          lows = lows stock;
          volumes = volumes stock;
          current = current stock;
          prevClose = previousClose stock;
          sma20 = calculateSMA prices 20;
          ema50 = calculateEMA prices 50;
          rsi = calculateRSI prices 14;
          change = percent_change current prevClose;
          hasFVG = detectFairValueGap highs lows;
          orderBlock = detectOrderBlock prices;
          volumeSurge = detectVolumeSurge volumes;
          liquiditySweep = detectLiquiditySweep highs lows current;
          bos = detectBOS highs lows;
          choch = detectCHoCH highs lows;
          mitigation = detectMitigationBlock prices;
          breaker = detectBreakerBlock prices;
          s0 = (HOLD, (50, ''Neutral: waiting for confirmation.''));
          s1 = (if js_gt (Num current) sma20 \<and> current > ema50 \<and> js_lt rsi (Num 70)
                   \<and> js_gt change (Num 0)
                then (BUY,
                  bonus (liquiditySweep = Some BULLISH) 4 '' Bullish liquidity sweep.''
                  (bonus volumeSurge 3 '' Strong volume.''
                  (bonus hasFVG 3 '' FVG spotted.''
                  (bonus (breaker = Some BULLISH) 5 '' Breaker Block confirmed.''
                  (bonus (mitigation = Some BULLISH) 5 '' Mitigation Block respected.''
                  (bonus (orderBlock = Some BULLISH) 5 '' Bullish OB.''
                  (bonus (choch = Some BULLISH) 10 '' CHoCH reversal.''
                  (bonus (bos = Some BULLISH) 10 '' BOS confirmed.''
                  (70, ''Price above SMA20 & EMA50 with bullish momentum.'')))))))))
                else s0);
          s2 = (if js_lt (Num current) sma20 \<and> current < ema50 \<and> js_gt rsi (Num 30)
                   \<and> js_lt change (Num 0)
                then (SELL,
                  bonus (liquiditySweep = Some BEARISH) 4 '' Bearish liquidity sweep.''
                  (bonus volumeSurge 3 '' Heavy selling volume.''
                  (bonus hasFVG 3 '' FVG imbalance.''
                  (bonus (breaker = Some BEARISH) 5 '' Breaker Block formed.''
                  (bonus (mitigation = Some BEARISH) 5 '' Mitigation Block confirmed.''
                  (bonus (orderBlock = Some BEARISH) 5 '' Bearish OB.''
                  (bonus (choch = Some BEARISH) 10 '' CHoCH reversal.''
                  (bonus (bos = Some BEARISH) 10 '' BOS confirmed.''
                  (70, ''Price below SMA20 & EMA50 with bearish momentum.'')))))))))
                else s1);
          signal = fst s2;
          confidence = min (fst (snd s2)) 99;
          explanation = snd (snd s2);
          stoploss = (if signal = BUY then current * 0.985
                      else if signal = SELL then current * 1.015 else current);
          targets = (if signal = BUY then [current * 1.01, current * 1.02, current * 1.03]
                     else if signal = SELL then [current * 0.99, current * 0.98, current * 0.97]
                     else [current])
      in \<lparr>signal = signal, stoploss = stoploss, targets = targets,
           confidence = confidence, explanation = explanation, hitStatus = ACTIVE,
           entryPrice = Some current, finalPrice = None, resolved = Some False,
           resolvedAt = None\<rparr>)"

section \<open>Tracking a signal\<close>

text \<open>
  \<open>new Date().toISOString()\<close> is the argument \<open>now\<close>. \<open>result.targets[0]\<close> of an
  empty array is \<open>undefined\<close>, and a comparison with it is false.
\<close>

definition updateHitStatus :: "string \<Rightarrow> SignalResult \<Rightarrow> real \<Rightarrow> SignalResult" where
  "updateHitStatus now result currentPrice =
     (if truthy (resolved result) then result
      else if signal result = BUY \<and> currentPrice \<le> stoploss result
      then result\<lparr>hitStatus := STOP, explanation := ''Stoploss hit.'', resolved := Some True,
                   resolvedAt := Some now, finalPrice := Some currentPrice\<rparr>
      else if signal result = BUY \<and> js_ge (Num currentPrice) (js_nth (targets result) 0)
      then result\<lparr>hitStatus := TARGET, explanation := ''Target 1 hit.'', resolved := Some True,
                   resolvedAt := Some now, finalPrice := Some currentPrice\<rparr>
      else if signal result = SELL \<and> currentPrice \<ge> stoploss result
      then result\<lparr>hitStatus := STOP, explanation := ''Stoploss hit.'', resolved := Some True,
                   resolvedAt := Some now, finalPrice := Some currentPrice\<rparr>
      else if signal result = SELL \<and> js_le (Num currentPrice) (js_nth (targets result) 0)
      then result\<lparr>hitStatus := TARGET, explanation := ''Target 1 hit.'', resolved := Some True,
                   resolvedAt := Some now, finalPrice := Some currentPrice\<rparr>
      else result)"

definition evaluateEndOfDayResult ::
  "string \<Rightarrow> SignalResult \<Rightarrow> real \<Rightarrow> real \<Rightarrow> real \<Rightarrow> SignalResult" where
  "evaluateEndOfDayResult now sig dayHigh dayLow closePrice =
     (if truthy (resolved sig) then sig
      else let final =
             (if signal sig = BUY
              then (if dayLow \<le> stoploss sig then (STOP, ''Stoploss hit intraday.'')
                    else if js_ge (Num dayHigh) (js_nth (targets sig) 0)
                    then (TARGET, ''Target reached.'')
                    else (ACTIVE, explanation sig))
              else if signal sig = SELL
              then (if dayHigh \<ge> stoploss sig then (STOP, ''Stoploss hit intraday.'')
                    else if js_le (Num dayLow) (js_nth (targets sig) 0)
                    then (TARGET, ''Target reached.'')
                    else (ACTIVE, explanation sig))
              else (ACTIVE, explanation sig))
           in sig\<lparr>hitStatus := fst final, finalPrice := Some closePrice, resolved := Some True,
                   resolvedAt := Some now, explanation := snd final\<rparr>)"

section \<open>Trade records\<close>

text \<open>
  The source of this section is the module \<open>tradeManager\<close>. A trade record has fields
  of the same names as a signal; from here on the unqualified names are those of the
  trade record and the fields of a signal are written \<open>SignalResult.signal\<close> and so on.
\<close>

datatype structure_tag = BOS | CHoCH

record TradeResult =
  symbol :: string
  signal :: direction
  stoploss :: real
  targets :: "real list"
  confidence :: real
  hitStatus :: hit_status
  explanation :: "string option"
  entry :: "real option"
  finalPrice :: "real option"
  resolved :: "bool option"
  resolvedAt :: "string option"
  bos :: "structure_tag option"

text \<open>\<open>x ?? d\<close>: the default when the field is absent.\<close>

definition nullish :: "'a option \<Rightarrow> 'a \<Rightarrow> 'a" where
  "nullish x d = (case x of None \<Rightarrow> d | Some v \<Rightarrow> v)"


text \<open>
  The signal that \<open>updateLiveTrade\<close> and \<open>endOfDayEvaluate\<close> build from a trade record;
  it has no \<open>resolvedAt\<close>.
\<close>

definition tradeSignal :: "TradeResult \<Rightarrow> SignalResult" where
  "tradeSignal trade =
     \<lparr>SignalResult.signal = signal trade,
      SignalResult.stoploss = stoploss trade,
      SignalResult.targets = targets trade,
      SignalResult.confidence = confidence trade,
      SignalResult.explanation = nullish (explanation trade) ''No explanation'',
      SignalResult.hitStatus = hitStatus trade,
      SignalResult.entryPrice = entry trade,
      SignalResult.finalPrice = finalPrice trade,
      SignalResult.resolved = Some (nullish (resolved trade) False),
      SignalResult.resolvedAt = None\<rparr>"

text \<open>The record both return: the trade with five fields taken from the updated signal.\<close>

definition mergeSignal :: "TradeResult \<Rightarrow> SignalResult \<Rightarrow> TradeResult" where
  "mergeSignal trade updatedSignal =
     trade\<lparr>hitStatus := SignalResult.hitStatus updatedSignal,
            resolved := SignalResult.resolved updatedSignal,
            finalPrice := SignalResult.finalPrice updatedSignal,
            resolvedAt := SignalResult.resolvedAt updatedSignal,
            explanation := Some (SignalResult.explanation updatedSignal)\<rparr>"

definition updateLiveTrade :: "string \<Rightarrow> TradeResult \<Rightarrow> real \<Rightarrow> TradeResult" where
  "updateLiveTrade now trade currentPrice =
     (let updatedSignal = updateHitStatus now (tradeSignal trade) currentPrice
      in mergeSignal trade updatedSignal)"



section \<open>The rules as the specification words them\<close>



text \<open>
  The gates of the synthesizer, on the values the synthesizer computes: the simple moving
  average of 20 closes, the exponential one of 50, the RSI of 14 and the percent change
  from the previous close.
\<close>

definition buy_gate :: "StockData \<Rightarrow> bool" where
  "buy_gate stock =
     (js_gt (Num (current stock)) (calculateSMA (prices stock) 20)
      \<and> current stock > calculateEMA (prices stock) 50
      \<and> js_lt (calculateRSI (prices stock) 14) (Num 70)
      \<and> js_gt (percent_change (current stock) (previousClose stock)) (Num 0))"

definition sell_gate :: "StockData \<Rightarrow> bool" where
  "sell_gate stock =
     (js_lt (Num (current stock)) (calculateSMA (prices stock) 20)
      \<and> current stock < calculateEMA (prices stock) 50
      \<and> js_gt (calculateRSI (prices stock) 14) (Num 30)
      \<and> js_lt (percent_change (current stock) (previousClose stock)) (Num 0))"

text \<open>
  The bonus table: the sum of the weights of the detectors aligned with a direction. The
  fair value gap and the volume surge have no direction and count for both.
\<close>

definition aligned_bonus :: "bias \<Rightarrow> StockData \<Rightarrow> real" where
  "aligned_bonus b stock =
     (if detectBOS (highs stock) (lows stock) = Some b then 10 else 0)
     + (if detectCHoCH (highs stock) (lows stock) = Some b then 10 else 0)
     + (if detectOrderBlock (prices stock) = Some b then 5 else 0)
     + (if detectMitigationBlock (prices stock) = Some b then 5 else 0)
     + (if detectBreakerBlock (prices stock) = Some b then 5 else 0)
     + (if detectFairValueGap (highs stock) (lows stock) then 3 else 0)
     + (if detectVolumeSurge (volumes stock) then 3 else 0)
     + (if detectLiquiditySweep (highs stock) (lows stock) (current stock) = Some b
        then 4 else 0)"

text \<open>
  A day, or a live tick when both extremes are the one price, that breaches neither the
  stoploss nor the first target of a signal. A HOLD signal is never breached.
\<close>

definition no_breach :: "direction \<Rightarrow> real \<Rightarrow> real list \<Rightarrow> real \<Rightarrow> real \<Rightarrow> bool" where
  "no_breach dir stop tgts dayHigh dayLow =
     (case dir of
        BUY \<Rightarrow> \<not> dayLow \<le> stop \<and> \<not> js_ge (Num dayHigh) (js_nth tgts 0)
      | SELL \<Rightarrow> \<not> dayHigh \<ge> stop \<and> \<not> js_le (Num dayLow) (js_nth tgts 0)
      | HOLD \<Rightarrow> True)"

text \<open>
  The average loss of the RSI: the falls among the last \<open>period\<close> differences of
  consecutive closes, summed and divided by \<open>period\<close>.
\<close>

definition average_loss :: "real list \<Rightarrow> nat \<Rightarrow> number" where
  "average_loss data period =
     js_div
       (Num (\<Sum>i\<leftarrow>[length data - period ..< length data]. max 0 (data ! (i - 1) - data ! i)))
       (Num (real period))"

section \<open>Example inputs\<close>

definition ex_prices :: "real list" where
  "ex_prices =
     [100, 102, 101, 103, 102, 104, 103, 105, 104, 106, 105, 107, 106, 108, 107, 109]"

definition ex_stock :: StockData where
  "ex_stock =
     \<lparr>StockData.symbol = ''TCS.NS'', current = 110, high = 111, low = 106, open' = 107,
      previousClose = 107, prices = ex_prices,
      highs = map (\<lambda>p. p + 1) ex_prices, lows = map (\<lambda>p. p - 1) ex_prices,
      volumes = [10, 10, 10, 10, 10, 10, 10, 10, 10, 10, 10, 10, 10, 10, 10, 40]\<rparr>"

text \<open>The same instrument falling: the closes reversed and the price below them.\<close>

definition ex_stock_down :: StockData where
  "ex_stock_down = ex_stock\<lparr>current := 90, prices := rev ex_prices\<rparr>"

text \<open>A flat instrument: no history and no change from the previous close.\<close>

definition ex_stock_flat :: StockData where
  "ex_stock_flat =
     \<lparr>StockData.symbol = ''INFY.NS'', current = 50, high = 50, low = 50, open' = 50,
      previousClose = 50, prices = [], highs = [], lows = [], volumes = []\<rparr>"

text \<open>Signals as the tracker receives them, and the time of a call.\<close>

definition ex_buy :: SignalResult where
  "ex_buy =
     \<lparr>SignalResult.signal = BUY, SignalResult.stoploss = 95,
      SignalResult.targets = [105, 110, 115], SignalResult.confidence = 85,
      SignalResult.explanation = ''Price above SMA20 & EMA50 with bullish momentum.'',
      SignalResult.hitStatus = ACTIVE, entryPrice = Some 100,
      SignalResult.finalPrice = None, SignalResult.resolved = Some False,
      SignalResult.resolvedAt = None\<rparr>"

definition ex_sell :: SignalResult where
  "ex_sell = ex_buy\<lparr>SignalResult.signal := SELL, SignalResult.stoploss := 105,
     SignalResult.targets := [95, 90, 85],
     SignalResult.explanation := ''Price below SMA20 & EMA50 with bearish momentum.''\<rparr>"

definition ex_hold :: SignalResult where
  "ex_hold = ex_buy\<lparr>SignalResult.signal := HOLD, SignalResult.stoploss := 100,
     SignalResult.targets := [100], SignalResult.confidence := 50,
     SignalResult.explanation := ''Neutral: waiting for confirmation.''\<rparr>"

definition ex_resolved :: SignalResult where
  "ex_resolved = ex_buy\<lparr>SignalResult.hitStatus := TARGET,
     SignalResult.explanation := ''Target 1 hit.'', SignalResult.resolved := Some True,
     SignalResult.resolvedAt := Some ''2024-03-01T09:30:00.000Z'',
     SignalResult.finalPrice := Some 106\<rparr>"

definition ex_now :: string where
  "ex_now = ''2024-03-04T15:30:00.000Z''"








section \<open>The synthesizer\<close>

lemma fst_bonus: "fst (bonus c w txt ce) = fst ce + (if c then w else 0)"
  by (simp add: bonus_def)

lemma aligned_bonus_nonneg: "0 \<le> aligned_bonus b stock"
  by (simp add: aligned_bonus_def)

lemma gates_exclusive: "\<not> (buy_gate stock \<and> sell_gate stock)"
  by (auto simp add: buy_gate_def sell_gate_def)

text \<open>
  The fields of the generated signal, by gate. The source tests the SELL gate after the
  BUY gate and lets it overwrite; the two gates never hold together.
\<close>

lemma signal_generateSMCSignal:
  "SignalResult.signal (generateSMCSignal stock) =
     (if sell_gate stock then SELL else if buy_gate stock then BUY else HOLD)"
  unfolding generateSMCSignal_def Let_def sell_gate_def [symmetric] buy_gate_def [symmetric]
  by (cases "sell_gate stock"; cases "buy_gate stock") (simp_all split del: if_split)

lemma confidence_generateSMCSignal:
  "SignalResult.confidence (generateSMCSignal stock) =
     (if sell_gate stock then min (70 + aligned_bonus BEARISH stock) 99
      else if buy_gate stock then min (70 + aligned_bonus BULLISH stock) 99
      else 50)"
  unfolding generateSMCSignal_def Let_def sell_gate_def [symmetric] buy_gate_def [symmetric]
    aligned_bonus_def
  by (cases "sell_gate stock"; cases "buy_gate stock")
    (simp_all add: fst_bonus add.assoc split del: if_split)

lemma targets_generateSMCSignal:
  "SignalResult.targets (generateSMCSignal stock) =
     (if sell_gate stock
      then [current stock * 0.99, current stock * 0.98, current stock * 0.97]
      else if buy_gate stock
      then [current stock * 1.01, current stock * 1.02, current stock * 1.03]
      else [current stock])"
  unfolding generateSMCSignal_def Let_def sell_gate_def [symmetric] buy_gate_def [symmetric]
  by (cases "sell_gate stock"; cases "buy_gate stock") (simp_all split del: if_split)

lemma stoploss_generateSMCSignal:
  "SignalResult.stoploss (generateSMCSignal stock) =
     (if sell_gate stock then current stock * 1.015
      else if buy_gate stock then current stock * 0.985
      else current stock)"
  unfolding generateSMCSignal_def Let_def sell_gate_def [symmetric] buy_gate_def [symmetric]
  by (cases "sell_gate stock"; cases "buy_gate stock") (simp_all split del: if_split)

text \<open>
  C1. For every input the direction is BUY exactly when the price is above both averages,
  the RSI is below 70 and the percent change is positive; SELL exactly when the mirrored
  conditions hold; HOLD in every other case.
\<close>

theorem generateSMCSignal_direction:
  "SignalResult.signal (generateSMCSignal stock) =
     (if buy_gate stock then BUY else if sell_gate stock then SELL else HOLD)
   \<and> (SignalResult.signal (generateSMCSignal stock) = BUY) = buy_gate stock
   \<and> (SignalResult.signal (generateSMCSignal stock) = SELL) = sell_gate stock
   \<and> (SignalResult.signal (generateSMCSignal stock) = HOLD)
       = (\<not> buy_gate stock \<and> \<not> sell_gate stock)"
  using gates_exclusive [of stock] by (auto simp add: signal_generateSMCSignal)

theorem generateSMCSignal_direction_witness:
  "buy_gate ex_stock \<and> SignalResult.signal (generateSMCSignal ex_stock) = BUY
   \<and> sell_gate ex_stock_down \<and> SignalResult.signal (generateSMCSignal ex_stock_down) = SELL
   \<and> \<not> buy_gate ex_stock_flat \<and> \<not> sell_gate ex_stock_flat
   \<and> SignalResult.signal (generateSMCSignal ex_stock_flat) = HOLD"
proof -
  have "buy_gate ex_stock" by code_simp
  moreover have "sell_gate ex_stock_down" by code_simp
  moreover have "\<not> buy_gate ex_stock_flat" by code_simp
  moreover have "\<not> sell_gate ex_stock_flat" by code_simp
  ultimately show ?thesis
    using generateSMCSignal_direction [of ex_stock]
      generateSMCSignal_direction [of ex_stock_down]
      generateSMCSignal_direction [of ex_stock_flat]
    by blast
qed

text \<open>
  C2. The confidence of a generated signal lies between 50 and 99: a HOLD signal has
  exactly 50, a BUY or SELL signal has 70 plus the bonuses of the aligned detectors,
  clamped to at most 99.
\<close>

theorem generateSMCSignal_confidence:
  "50 \<le> SignalResult.confidence (generateSMCSignal stock)
   \<and> SignalResult.confidence (generateSMCSignal stock) \<le> 99
   \<and> (SignalResult.signal (generateSMCSignal stock) = HOLD
        \<longrightarrow> SignalResult.confidence (generateSMCSignal stock) = 50)
   \<and> (SignalResult.signal (generateSMCSignal stock) = BUY
        \<longrightarrow> SignalResult.confidence (generateSMCSignal stock)
            = min (70 + aligned_bonus BULLISH stock) 99)
   \<and> (SignalResult.signal (generateSMCSignal stock) = SELL
        \<longrightarrow> SignalResult.confidence (generateSMCSignal stock)
            = min (70 + aligned_bonus BEARISH stock) 99)"
  using gates_exclusive [of stock] aligned_bonus_nonneg [of BULLISH stock]
    aligned_bonus_nonneg [of BEARISH stock]
  by (auto simp add: signal_generateSMCSignal confidence_generateSMCSignal)

theorem generateSMCSignal_confidence_witness:
  "SignalResult.signal (generateSMCSignal ex_stock) = BUY
   \<and> aligned_bonus BULLISH ex_stock = 36
   \<and> SignalResult.confidence (generateSMCSignal ex_stock) = 99
   \<and> SignalResult.signal (generateSMCSignal ex_stock_down) = SELL
   \<and> aligned_bonus BEARISH ex_stock_down = 16
   \<and> SignalResult.confidence (generateSMCSignal ex_stock_down) = 86
   \<and> SignalResult.signal (generateSMCSignal ex_stock_flat) = HOLD
   \<and> SignalResult.confidence (generateSMCSignal ex_stock_flat) = 50"
proof -
  have "SignalResult.signal (generateSMCSignal ex_stock) = BUY" by code_simp
  moreover have "aligned_bonus BULLISH ex_stock = 36" by code_simp
  moreover have "SignalResult.signal (generateSMCSignal ex_stock_down) = SELL" by code_simp
  moreover have "aligned_bonus BEARISH ex_stock_down = 16" by code_simp
  moreover have "SignalResult.signal (generateSMCSignal ex_stock_flat) = HOLD" by code_simp
  ultimately show ?thesis
    using generateSMCSignal_confidence [of ex_stock]
      generateSMCSignal_confidence [of ex_stock_down]
      generateSMCSignal_confidence [of ex_stock_flat]
    by simp
qed

text \<open>
  C3. For a positive price, a BUY signal has three targets, strictly increasing and all
  above the price, and its stoploss is the price times 0.985; a SELL signal has three
  targets, strictly decreasing and all below the price, and its stoploss is the price
  times 1.015; a HOLD signal has the price as its one target.
\<close>

theorem generateSMCSignal_targets:
  assumes "0 < current stock"
  shows "(SignalResult.signal (generateSMCSignal stock) = BUY \<longrightarrow>
            SignalResult.targets (generateSMCSignal stock)
              = [current stock * 1.01, current stock * 1.02, current stock * 1.03]
          \<and> length (SignalResult.targets (generateSMCSignal stock)) = 3
          \<and> sorted_wrt (<) (SignalResult.targets (generateSMCSignal stock))
          \<and> (\<forall>t \<in> set (SignalResult.targets (generateSMCSignal stock)). current stock < t)
          \<and> SignalResult.stoploss (generateSMCSignal stock) = current stock * 0.985)
       \<and> (SignalResult.signal (generateSMCSignal stock) = SELL \<longrightarrow>
            SignalResult.targets (generateSMCSignal stock)
              = [current stock * 0.99, current stock * 0.98, current stock * 0.97]
          \<and> length (SignalResult.targets (generateSMCSignal stock)) = 3
          \<and> sorted_wrt (>) (SignalResult.targets (generateSMCSignal stock))
          \<and> (\<forall>t \<in> set (SignalResult.targets (generateSMCSignal stock)). t < current stock)
          \<and> SignalResult.stoploss (generateSMCSignal stock) = current stock * 1.015)
       \<and> (SignalResult.signal (generateSMCSignal stock) = HOLD \<longrightarrow>
            SignalResult.targets (generateSMCSignal stock) = [current stock]
          \<and> length (SignalResult.targets (generateSMCSignal stock)) = 1)"
  using assms gates_exclusive [of stock]
  by (auto simp add: signal_generateSMCSignal targets_generateSMCSignal
      stoploss_generateSMCSignal)

theorem generateSMCSignal_targets_witness:
  "0 < current ex_stock
   \<and> SignalResult.signal (generateSMCSignal ex_stock) = BUY
   \<and> SignalResult.targets (generateSMCSignal ex_stock) = [111.1, 112.2, 113.3]
   \<and> SignalResult.stoploss (generateSMCSignal ex_stock) = 108.35
   \<and> 0 < current ex_stock_down
   \<and> SignalResult.signal (generateSMCSignal ex_stock_down) = SELL
   \<and> SignalResult.targets (generateSMCSignal ex_stock_down) = [89.1, 88.2, 87.3]
   \<and> SignalResult.stoploss (generateSMCSignal ex_stock_down) = 91.35
   \<and> 0 < current ex_stock_flat
   \<and> SignalResult.signal (generateSMCSignal ex_stock_flat) = HOLD
   \<and> SignalResult.targets (generateSMCSignal ex_stock_flat) = [50]"
proof -
  have c: "current ex_stock = 110" "current ex_stock_down = 90" "current ex_stock_flat = 50"
    by (simp_all add: ex_stock_def ex_stock_down_def ex_stock_flat_def)
  have "SignalResult.signal (generateSMCSignal ex_stock) = BUY" by code_simp
  moreover have "SignalResult.signal (generateSMCSignal ex_stock_down) = SELL" by code_simp
  moreover have "SignalResult.signal (generateSMCSignal ex_stock_flat) = HOLD" by code_simp
  ultimately show ?thesis
    using generateSMCSignal_targets [of ex_stock] generateSMCSignal_targets [of ex_stock_down]
      generateSMCSignal_targets [of ex_stock_flat]
    by (simp add: c)
qed

section \<open>The tracker\<close>



lemma updateHitStatus_cases:
  "updateHitStatus now s price = s
   \<or> updateHitStatus now s price =
       s\<lparr>SignalResult.hitStatus := STOP, SignalResult.explanation := ''Stoploss hit.'',
         SignalResult.resolved := Some True, SignalResult.resolvedAt := Some now,
         SignalResult.finalPrice := Some price\<rparr>
   \<or> updateHitStatus now s price =
       s\<lparr>SignalResult.hitStatus := TARGET, SignalResult.explanation := ''Target 1 hit.'',
         SignalResult.resolved := Some True, SignalResult.resolvedAt := Some now,
         SignalResult.finalPrice := Some price\<rparr>"
  by (simp add: updateHitStatus_def)

text \<open>
  C4. On an unresolved BUY signal a day whose low is at or below the stoploss and whose
  high is at or above the first target resolves as a stop, not as a target; the same for
  SELL with the high against the stoploss and the low against the first target. Whenever
  the end-of-day evaluation resolves a signal, the final price is the close.
\<close>

theorem evaluateEndOfDayResult_stop_first:
  assumes "\<not> truthy (SignalResult.resolved s)"
  shows "(SignalResult.signal s = BUY \<and> dayLow \<le> SignalResult.stoploss s
            \<and> SignalResult.targets s \<noteq> [] \<and> dayHigh \<ge> SignalResult.targets s ! 0
          \<longrightarrow> SignalResult.hitStatus (evaluateEndOfDayResult now s dayHigh dayLow closePrice)
                = STOP)
       \<and> (SignalResult.signal s = SELL \<and> dayHigh \<ge> SignalResult.stoploss s
            \<and> SignalResult.targets s \<noteq> [] \<and> dayLow \<le> SignalResult.targets s ! 0
          \<longrightarrow> SignalResult.hitStatus (evaluateEndOfDayResult now s dayHigh dayLow closePrice)
                = STOP)
       \<and> SignalResult.resolved (evaluateEndOfDayResult now s dayHigh dayLow closePrice)
           = Some True
       \<and> SignalResult.finalPrice (evaluateEndOfDayResult now s dayHigh dayLow closePrice)
           = Some closePrice"
  using assms by (simp add: evaluateEndOfDayResult_def Let_def)

theorem evaluateEndOfDayResult_stop_first_witness:
  "\<not> truthy (SignalResult.resolved ex_buy) \<and> SignalResult.signal ex_buy = BUY
   \<and> (94::real) \<le> SignalResult.stoploss ex_buy \<and> SignalResult.targets ex_buy \<noteq> []
   \<and> (106::real) \<ge> SignalResult.targets ex_buy ! 0
   \<and> SignalResult.hitStatus (evaluateEndOfDayResult ex_now ex_buy 106 94 101) = STOP
   \<and> SignalResult.finalPrice (evaluateEndOfDayResult ex_now ex_buy 106 94 101) = Some 101
   \<and> \<not> truthy (SignalResult.resolved ex_sell) \<and> SignalResult.signal ex_sell = SELL
   \<and> (106::real) \<ge> SignalResult.stoploss ex_sell \<and> SignalResult.targets ex_sell \<noteq> []
   \<and> (94::real) \<le> SignalResult.targets ex_sell ! 0
   \<and> SignalResult.hitStatus (evaluateEndOfDayResult ex_now ex_sell 106 94 101) = STOP
   \<and> SignalResult.finalPrice (evaluateEndOfDayResult ex_now ex_sell 106 94 101) = Some 101"
  using
    evaluateEndOfDayResult_stop_first
      [where s = ex_buy and dayHigh = 106 and dayLow = 94 and now = ex_now and closePrice = 101]
    evaluateEndOfDayResult_stop_first
      [where s = ex_sell and dayHigh = 106 and dayLow = 94 and now = ex_now and closePrice = 101]
  by (simp add: ex_buy_def ex_sell_def truthy_def)

text \<open>
  C5. A resolved signal is terminal: the live update and the end-of-day evaluation return
  it with every field unchanged.
\<close>

theorem resolved_signal_unchanged:
  assumes "SignalResult.resolved s = Some True"
  shows "updateHitStatus now s price = s
       \<and> evaluateEndOfDayResult now s dayHigh dayLow closePrice = s"
  using assms by (simp add: updateHitStatus_def evaluateEndOfDayResult_def truthy_def)

theorem resolved_signal_unchanged_witness:
  "SignalResult.resolved ex_resolved = Some True
   \<and> updateHitStatus ex_now ex_resolved 94 = ex_resolved
   \<and> evaluateEndOfDayResult ex_now ex_resolved 106 94 101 = ex_resolved"
proof -
  have r: "SignalResult.resolved ex_resolved = Some True"
    by (simp add: ex_resolved_def)
  show ?thesis
    using r
      resolved_signal_unchanged
        [OF r, where now = ex_now and price = 94 and dayHigh = 106 and dayLow = 94
          and closePrice = 101]
    by simp
qed





text \<open>
  C7. The live update changes at most the status, the resolved flag, the resolution time,
  the final price and the explanation; direction, stoploss, targets, confidence and entry
  price are those of the input, and a tick on a resolved signal, on a HOLD signal or
  without a breach returns the input unchanged.
\<close>

theorem updateHitStatus_frame:
  "SignalResult.signal (updateHitStatus now s price) = SignalResult.signal s
   \<and> SignalResult.stoploss (updateHitStatus now s price) = SignalResult.stoploss s
   \<and> SignalResult.targets (updateHitStatus now s price) = SignalResult.targets s
   \<and> SignalResult.confidence (updateHitStatus now s price) = SignalResult.confidence s
   \<and> entryPrice (updateHitStatus now s price) = entryPrice s
   \<and> (\<exists>h e r a f. updateHitStatus now s price =
          s\<lparr>SignalResult.hitStatus := h, SignalResult.explanation := e,
            SignalResult.resolved := r, SignalResult.resolvedAt := a,
            SignalResult.finalPrice := f\<rparr>)
   \<and> (truthy (SignalResult.resolved s) \<or> SignalResult.signal s = HOLD
        \<or> no_breach (SignalResult.signal s) (SignalResult.stoploss s)
             (SignalResult.targets s) price price
      \<longrightarrow> updateHitStatus now s price = s)"
proof -
  have frame: "\<exists>h e r a f. updateHitStatus now s price =
          s\<lparr>SignalResult.hitStatus := h, SignalResult.explanation := e,
            SignalResult.resolved := r, SignalResult.resolvedAt := a,
            SignalResult.finalPrice := f\<rparr>"
  proof (cases "updateHitStatus now s price = s")
    case True
    have "s = s\<lparr>SignalResult.hitStatus := SignalResult.hitStatus s,
            SignalResult.explanation := SignalResult.explanation s,
            SignalResult.resolved := SignalResult.resolved s,
            SignalResult.resolvedAt := SignalResult.resolvedAt s,
            SignalResult.finalPrice := SignalResult.finalPrice s\<rparr>"
      by simp
    with True show ?thesis by metis
  next
    case False
    then consider
      "updateHitStatus now s price =
         s\<lparr>SignalResult.hitStatus := STOP, SignalResult.explanation := ''Stoploss hit.'',
           SignalResult.resolved := Some True, SignalResult.resolvedAt := Some now,
           SignalResult.finalPrice := Some price\<rparr>"
      | "updateHitStatus now s price =
         s\<lparr>SignalResult.hitStatus := TARGET, SignalResult.explanation := ''Target 1 hit.'',
           SignalResult.resolved := Some True, SignalResult.resolvedAt := Some now,
           SignalResult.finalPrice := Some price\<rparr>"
      using updateHitStatus_cases [of now s price] by blast
    then show ?thesis
      by cases blast+
  qed
  then obtain h e r a f where u: "updateHitStatus now s price =
          s\<lparr>SignalResult.hitStatus := h, SignalResult.explanation := e,
            SignalResult.resolved := r, SignalResult.resolvedAt := a,
            SignalResult.finalPrice := f\<rparr>"
    by blast
  have same: "truthy (SignalResult.resolved s) \<or> SignalResult.signal s = HOLD
        \<or> no_breach (SignalResult.signal s) (SignalResult.stoploss s)
             (SignalResult.targets s) price price
      \<longrightarrow> updateHitStatus now s price = s"
    by (cases "SignalResult.signal s") (auto simp add: updateHitStatus_def no_breach_def)
  show ?thesis
    using frame same by (simp add: u)
qed


theorem updateHitStatus_frame_witness:
  "no_breach (SignalResult.signal ex_buy) (SignalResult.stoploss ex_buy)
     (SignalResult.targets ex_buy) 100 100
   \<and> updateHitStatus ex_now ex_buy 100 = ex_buy
   \<and> SignalResult.signal ex_hold = HOLD
   \<and> updateHitStatus ex_now ex_hold 0 = ex_hold
   \<and> truthy (SignalResult.resolved ex_resolved)
   \<and> updateHitStatus ex_now ex_resolved 94 = ex_resolved
   \<and> SignalResult.hitStatus (updateHitStatus ex_now ex_buy 94) = STOP
   \<and> SignalResult.signal (updateHitStatus ex_now ex_buy 94) = BUY
   \<and> SignalResult.stoploss (updateHitStatus ex_now ex_buy 94) = 95
   \<and> SignalResult.targets (updateHitStatus ex_now ex_buy 94) = [105, 110, 115]
   \<and> SignalResult.confidence (updateHitStatus ex_now ex_buy 94) = 85
   \<and> entryPrice (updateHitStatus ex_now ex_buy 94) = Some 100"
proof -
  have n: "no_breach (SignalResult.signal ex_buy) (SignalResult.stoploss ex_buy)
     (SignalResult.targets ex_buy) 100 100"
    by (simp add: ex_buy_def no_breach_def js_ge_def js_nth_def)
  have h: "SignalResult.signal ex_hold = HOLD"
    by (simp add: ex_hold_def)
  have r: "truthy (SignalResult.resolved ex_resolved)"
    by (simp add: ex_resolved_def truthy_def)
  have s: "SignalResult.hitStatus (updateHitStatus ex_now ex_buy 94) = STOP"
    by (simp add: updateHitStatus_def ex_buy_def truthy_def)
  have f: "SignalResult.signal ex_buy = BUY" "SignalResult.stoploss ex_buy = 95"
    "SignalResult.targets ex_buy = [105, 110, 115]" "SignalResult.confidence ex_buy = 85"
    "entryPrice ex_buy = Some 100"
    by (simp_all add: ex_buy_def)
  show ?thesis
    using n h r s f
      updateHitStatus_frame [where s = ex_buy and price = 100 and now = ex_now]
      updateHitStatus_frame [where s = ex_hold and price = 0 and now = ex_now]
      updateHitStatus_frame [where s = ex_resolved and price = 94 and now = ex_now]
      updateHitStatus_frame [where s = ex_buy and price = 94 and now = ex_now]
    by simp
qed

section \<open>The accuracy\<close>





section \<open>The volume surge\<close>






section \<open>The indicators\<close>

lemma foldl_rsi_step:
  "foldl (rsi_step data) (g, l) is =
     (g + (\<Sum>i\<leftarrow>is. max 0 (data ! i - data ! (i - 1))),
      l + (\<Sum>i\<leftarrow>is. max 0 (data ! (i - 1) - data ! i)))"
proof (induction "is" arbitrary: g l)
  case Nil
  then show ?case by simp
next
  case (Cons i "is")
  have "rsi_step data (g, l) i =
          (g + max 0 (data ! i - data ! (i - 1)), l + max 0 (data ! (i - 1) - data ! i))"
    by (simp add: rsi_step_def Let_def max_def)
  then show ?case
    by (simp add: Cons.IH add.assoc)
qed

lemma rsi_avgLoss_average_loss: "rsi_avgLoss data period = average_loss data period"
  by (simp add: rsi_avgLoss_def average_loss_def rsi_sums_def foldl_rsi_step)

lemma rsi_reads_in_range:
  assumes "period + 1 \<le> length data" and "i \<in> set [length data - period ..< length data]"
  shows "1 \<le> i \<and> i < length data \<and> i - 1 < length data"
  using assms by auto

text \<open>
  C10. For a non-empty series shorter than \<open>period\<close> the moving average is the last
  element; for a series shorter than \<open>period + 1\<close> the RSI is 50; for a series whose
  average loss over the last \<open>period\<close> differences is 0 the RSI is 100. The three
  functions are total: every input has a value.
\<close>

theorem indicators_degenerate:
  "(data \<noteq> [] \<and> length data < period \<longrightarrow> calculateSMA data period = Num (last data))
   \<and> (length data < period + 1 \<longrightarrow> calculateRSI data period = Num 50)
   \<and> (period + 1 \<le> length data \<and> average_loss data period = Num 0
        \<longrightarrow> calculateRSI data period = Num 100)"
proof (intro conjI impI)
  assume "data \<noteq> [] \<and> length data < period"
  then show "calculateSMA data period = Num (last data)"
    by (cases data) (simp_all add: calculateSMA_def last_conv_nth)
next
  assume "length data < period + 1"
  then show "calculateRSI data period = Num 50"
    by (simp add: calculateRSI_def)
next
  assume "period + 1 \<le> length data \<and> average_loss data period = Num 0"
  then show "calculateRSI data period = Num 100"
    by (simp add: calculateRSI_def Let_def rsi_avgLoss_average_loss js_eq_def)
qed

theorem indicators_degenerate_witness:
  "ex_prices \<noteq> [] \<and> length ex_prices < 20 \<and> calculateSMA ex_prices 20 = Num 109
   \<and> length ex_prices < 16 + 1 \<and> calculateRSI ex_prices 16 = Num 50
   \<and> 2 + 1 \<le> length [10, 11, 12 :: real] \<and> average_loss [10, 11, 12] 2 = Num 0
   \<and> calculateRSI [10, 11, 12] 2 = Num 100"
proof -
  have a: "ex_prices \<noteq> [] \<and> length ex_prices < 20 \<and> last ex_prices = 109"
    by (simp add: ex_prices_def)
  have b: "length ex_prices < 16 + 1"
    by (simp add: ex_prices_def)
  have c: "2 + 1 \<le> length [10, 11, 12 :: real] \<and> average_loss [10, 11, 12] 2 = Num 0"
    by code_simp
  show ?thesis
    using a b c indicators_degenerate [of ex_prices 20] indicators_degenerate [of ex_prices 16]
      indicators_degenerate [of "[10, 11, 12]" 2]
    by simp
qed


end
